theory Spec2Isabelle
  imports Main
begin

section \<open>The France Televisions provider of aspiratv\<close>

text \<open>
  This theory embeds \<^verbatim>\<open>providers/francetv/francetv.go\<close>: the catalog stream producer
  \<^verbatim>\<open>Shows\<close>, the detail resolver \<^verbatim>\<open>GetShowInfo\<close> and the path builder
  \<^verbatim>\<open>GetShowFileName\<close> with its alias \<^verbatim>\<open>GetShowFileNameMatcher\<close>.
  Strings are Go strings, that is byte sequences (\<open>string\<close> = \<open>char list\<close>).
\<close>

subsection \<open>Functions of the Go standard library that the provider calls\<close>

text \<open>
  \<^verbatim>\<open>strings.Join(elems, sep)\<close>.
\<close>

fun strings_Join :: "string list \<Rightarrow> string \<Rightarrow> string" where
  "strings_Join [] sep = []"
| "strings_Join [e] sep = e"
| "strings_Join (e # e' # es) sep = e @ sep @ strings_Join (e' # es) sep"

text \<open>
  \<^verbatim>\<open>strings.TrimSpace(s)\<close> removes the leading and the trailing white space
  \<^emph>\<open>as defined by Unicode\<close>: the runes for which \<^verbatim>\<open>unicode.IsSpace\<close> holds, here
  in their UTF-8 encodings (tab, line feed, vertical tab, form feed, carriage return, space,
  U+0085, U+00A0, U+1680, U+2000 to U+200A, U+2028, U+2029, U+202F, U+205F, U+3000).
  A byte that starts no valid encoding decodes to \<^verbatim>\<open>utf8.RuneError\<close>, which is no space.
\<close>

definition whiteSpace :: "string list" where
  "whiteSpace =
     [[CHR 0x09], [CHR 0x0A], [CHR 0x0B], [CHR 0x0C], [CHR 0x0D], [CHR 0x20],
      [CHR 0xC2, CHR 0x85], [CHR 0xC2, CHR 0xA0],
      [CHR 0xE1, CHR 0x9A, CHR 0x80],
      [CHR 0xE2, CHR 0x80, CHR 0x80], [CHR 0xE2, CHR 0x80, CHR 0x81],
      [CHR 0xE2, CHR 0x80, CHR 0x82], [CHR 0xE2, CHR 0x80, CHR 0x83],
      [CHR 0xE2, CHR 0x80, CHR 0x84], [CHR 0xE2, CHR 0x80, CHR 0x85],
      [CHR 0xE2, CHR 0x80, CHR 0x86], [CHR 0xE2, CHR 0x80, CHR 0x87],
      [CHR 0xE2, CHR 0x80, CHR 0x88], [CHR 0xE2, CHR 0x80, CHR 0x89],
      [CHR 0xE2, CHR 0x80, CHR 0x8A],
      [CHR 0xE2, CHR 0x80, CHR 0xA8], [CHR 0xE2, CHR 0x80, CHR 0xA9],
      [CHR 0xE2, CHR 0x80, CHR 0xAF], [CHR 0xE2, CHR 0x81, CHR 0x9F],
      [CHR 0xE3, CHR 0x80, CHR 0x80]]"

text \<open>
  \<open>trimLeading ws s\<close> removes from the front of \<open>s\<close> every byte sequence of \<open>ws\<close>,
  as long as there is one.
\<close>

definition leading :: "string list \<Rightarrow> string \<Rightarrow> string option" where
  "leading ws s = find (\<lambda>w. w \<noteq> [] \<and> take (length w) s = w) ws"

function trimLeading :: "string list \<Rightarrow> string \<Rightarrow> string" where
  "trimLeading ws s =
     (case leading ws s of
        None \<Rightarrow> s
      | Some w \<Rightarrow> trimLeading ws (drop (length w) s))"
  by pat_completeness auto
termination
proof (relation "measure (\<lambda>(ws, s). length s)")
  show "wf (measure (\<lambda>(ws :: string list, s :: string). length s))" by simp
next
  fix ws :: "string list" and s w :: string
  assume "leading ws s = Some w"
  then have w: "w \<noteq> []" and t: "take (length w) s = w"
    by (auto simp: leading_def find_Some_iff)
  from t have "length (take (length w) s) = length w"
    by simp
  then have "length w \<le> length s"
    by simp
  with w show "((ws, drop (length w) s), (ws, s)) \<in> measure (\<lambda>(ws, s). length s)"
    by (cases w) auto
qed

declare trimLeading.simps [simp del]

text \<open>
  The trailing white space is found by decoding the last rune, which for the encodings
  above is the same as looking for one of them at the end of the string: the reversed
  encodings at the front of the reversed string.
\<close>

definition TrimSpace :: "string \<Rightarrow> string" where
  "TrimSpace s = rev (trimLeading (map rev whiteSpace) (rev (trimLeading whiteSpace s)))"

text \<open>
  Decimal digits of a natural number, most significant first (the digit loops of
  \<^verbatim>\<open>fmt\<close> and \<^verbatim>\<open>time\<close>).
\<close>

definition digit :: "nat \<Rightarrow> char" where
  "digit d = ''0123456789'' ! d"

function itoa :: "nat \<Rightarrow> string" where
  "itoa n = (if n < 10 then [digit n] else itoa (n div 10) @ [digit (n mod 10)])"
  by pat_completeness auto
termination
  by (relation "measure (\<lambda>n. n)") auto

declare itoa.simps [simp del]

text \<open>
  \<^verbatim>\<open>appendInt(b, x, width)\<close> of package \<^verbatim>\<open>time\<close>: a minus sign for a negative
  \<open>x\<close>, then the decimal digits of its magnitude, padded with zeros on the left up to
  \<open>width\<close> digits.
\<close>

definition appendInt :: "int \<Rightarrow> nat \<Rightarrow> string" where
  "appendInt x width =
     (let ds = itoa (nat \<bar>x\<bar>)
      in (if x < 0 then ''-'' else []) @ replicate (width - length ds) (CHR ''0'') @ ds)"

text \<open>
  A \<^verbatim>\<open>time.Time\<close> is read by the provider only through \<^verbatim>\<open>Format\<close> with the
  layouts \<^verbatim>\<open>"2006"\<close> and \<^verbatim>\<open>"2006-01-02"\<close>, which print the calendar date of the
  instant in its own location. The model keeps that date.
\<close>

record Time =
  Year :: int
  Month :: int
  Day :: int

definition Format_2006 :: "Time \<Rightarrow> string" where
  "Format_2006 t = appendInt (Year t) 4"

definition Format_2006_01_02 :: "Time \<Rightarrow> string" where
  "Format_2006_01_02 t =
     appendInt (Year t) 4 @ ''-'' @ appendInt (Month t) 2 @ ''-'' @ appendInt (Day t) 2"

text \<open>
  \<^verbatim>\<open>filepath.Join(elem...)\<close> on a system whose separator is the slash: the leading
  empty elements are dropped, the others are joined with the separator and the result is
  cleaned; with no non-empty element the result is the empty string.
  \<^verbatim>\<open>Clean\<close> is modelled on the path elements: empty elements and \<^verbatim>\<open>.\<close> are dropped,
  \<^verbatim>\<open>..\<close> removes the element before it when there is one to remove, is dropped at the
  root and is kept otherwise; the empty result is \<^verbatim>\<open>.\<close>.
\<close>

fun splitSlash :: "string \<Rightarrow> string \<Rightarrow> string list" where
  "splitSlash [] cur = [cur]"
| "splitSlash (c # cs) cur =
     (if c = CHR ''/'' then cur # splitSlash cs [] else splitSlash cs (cur @ [c]))"

fun cleanElems :: "bool \<Rightarrow> string list \<Rightarrow> string list \<Rightarrow> string list" where
  "cleanElems rooted [] out = out"
| "cleanElems rooted (e # es) out =
     (if e = [] \<or> e = ''.'' then cleanElems rooted es out
      else if e = ''..'' then
        (if out \<noteq> [] \<and> last out \<noteq> ''..'' then cleanElems rooted es (butlast out)
         else if \<not> rooted then cleanElems rooted es (out @ [''..''])
         else cleanElems rooted es out)
      else cleanElems rooted es (out @ [e]))"

definition Clean :: "string \<Rightarrow> string" where
  "Clean path =
     (if path = [] then ''.''
      else
        let rooted = (hd path = CHR ''/'');
            out = cleanElems rooted (splitSlash path []) []
        in if rooted then CHR ''/'' # strings_Join out ''/''
           else if out = [] then ''.''
           else strings_Join out ''/'')"

definition filepath_Join :: "string list \<Rightarrow> string" where
  "filepath_Join elem =
     (case dropWhile (\<lambda>e. e = []) elem of
        [] \<Rightarrow> []
      | e # es \<Rightarrow> Clean (strings_Join (e # es) ''/''))"

subsection \<open>Data model\<close>

text \<open>
  An \<^verbatim>\<open>error\<close> value is its message. \<^verbatim>\<open>fmt.Errorf(prefix + "%v", err)\<close> builds
  the error whose message is the prefix followed by the message of \<open>err\<close>.
\<close>

datatype error = Error (message: string)

definition Errorf :: "string \<Rightarrow> error \<Rightarrow> error" where
  "Errorf prefix err = Error (prefix @ message err)"

text \<open>
  The catalog document \<^verbatim>\<open>pluzzList\<close> and the detail document \<^verbatim>\<open>infoOeuvre\<close>, with
  the fields that the provider reads. The types of \<^verbatim>\<open>TsDiffusionUtc\<close> and
  \<^verbatim>\<open>DureeReelle\<close> are those of \<^verbatim>\<open>time.Time\<close> and of an integer: the
  conversions \<^verbatim>\<open>time.Time(...)\<close> and \<^verbatim>\<open>time.Duration(...)\<close> keep the value.
\<close>

record emission =
  IDDiffusion :: string
  Titre :: string
  Soustitre :: string
  Saison :: string
  Episode :: string
  Accroche :: string
  TsDiffusionUtc :: Time
  ChaineID :: string
  DureeReelle :: int
  Rubrique :: string
  OasSitepage :: string
  ImageLarge :: string

record reponse =
  Emissions :: "emission list"

record pluzzList =
  Reponse :: reponse

record video =
  Format :: string
  URL :: string

record infoOeuvre =
  ImageSecure :: string
  Videos :: "video list"

text \<open>
  \<^verbatim>\<open>providers.Show\<close>, with the fields that the provider sets. \<^verbatim>\<open>time.Duration\<close> is an
  integer count.
\<close>

record Show =
  ID :: string
  Show :: string
  Title :: string
  Season :: string
  Episode :: string
  Pitch :: string
  AirDate :: Time
  Channel :: string
  Detailed :: bool
  DRM :: bool
  Duration :: int
  Category :: string
  Provider :: string
  ShowURL :: string
  StreamURL :: string
  ThumbnailURL :: string

text \<open>
  Package \<^verbatim>\<open>providers\<close> of the repository supplies the match predicate and the
  string helpers. Their code is in other files, so they are parameters of the model;
  \<open>'m\<close> is the type of a \<^verbatim>\<open>MatchRequest\<close>. \<^verbatim>\<open>IsShowMatch\<close> is taken as a
  predicate: it reads the show and does not change it.
\<close>

record 'm providers =
  IsShowMatch :: "'m list \<Rightarrow> Show \<Rightarrow> bool"
  PathNameCleaner :: "string \<Rightarrow> string"
  FileNameCleaner :: "string \<Rightarrow> string"
  Format2Digits :: "string \<Rightarrow> string"

text \<open>
  The provider holds a \<^verbatim>\<open>getter\<close>. \<^verbatim>\<open>Get(uri)\<close> returns a reader or an error
  and may change the state \<open>'g\<close> of the getter (a connection pool, a request counter of a
  test double); \<open>'r\<close> is the type of the readers.
\<close>

record ('g, 'r) FranceTV =
  getter :: "'g \<Rightarrow> string \<Rightarrow> (error + 'r) \<times> 'g"

text \<open>
  \<^verbatim>\<open>json.NewDecoder(r).Decode(v)\<close> on a zero \<open>v\<close> returns an error or \<^verbatim>\<open>nil\<close>,
  and leaves in \<open>v\<close> what it has stored: with an error, \<open>v\<close> may be filled in part
  (a value of the wrong JSON type for its field is skipped and reported at the end).
  The decoder of each document is a parameter.
\<close>

record 'r json =
  Decode_pluzzList :: "'r \<Rightarrow> error option \<times> pluzzList"
  Decode_infoOeuvre :: "'r \<Rightarrow> error option \<times> infoOeuvre"

definition ProviderName :: string where
  "ProviderName = ''francetv''"

text \<open>\<^verbatim>\<open>fmt.Sprintf(WSListURL, n)\<close>: the verb \<^verbatim>\<open>%d\<close> prints \<open>n\<close> in decimal.\<close>

definition WSListURL :: "int \<Rightarrow> string" where
  "WSListURL n =
     ''http://pluzz.webservices.francetelevisions.fr/pluzz/liste/type/replay/nb/''
       @ appendInt n 0 @ ''/debut/0''"

definition WSInfoOeuvre :: string where
  "WSInfoOeuvre =
     ''http://webservices.francetelevisions.fr/tools/getInfosOeuvre/v2/?catalogue=Pluzz&idDiffusion=''"

subsection \<open>Catalog stream producer\<close>

text \<open>The \<^verbatim>\<open>providers.Show\<close> built from a catalog entry (the literal in the loop).\<close>

definition mapEmission :: "emission \<Rightarrow> Show" where
  "mapEmission e =
     \<lparr> ID = IDDiffusion e,
       Show = TrimSpace (Titre e),
       Title = TrimSpace (Soustitre e),
       Season = Saison e,
       Episode = emission.Episode e,
       Pitch = TrimSpace (Accroche e),
       AirDate = TsDiffusionUtc e,
       Channel = ChaineID e,
       Detailed = False,
       DRM = False,
       Duration = DureeReelle e,
       Category = TrimSpace (Rubrique e),
       Provider = ProviderName,
       ShowURL = OasSitepage e,
       StreamURL = [],
       ThumbnailURL = ImageLarge e \<rparr>"

text \<open>
  The loop over \<^verbatim>\<open>list.Reponse.Emissions\<close>; \<open>ch\<close> holds the shows sent on the
  channel so far, oldest first.
\<close>

fun rangeEmissions ::
  "('m, 'x) providers_scheme \<Rightarrow> 'm list \<Rightarrow> emission list \<Rightarrow> Show list \<Rightarrow> Show list" where
  "rangeEmissions P mm [] ch = ch"
| "rangeEmissions P mm (e # es) ch =
     (let sh = mapEmission e
      in if IsShowMatch P mm sh then rangeEmissions P mm es (ch @ [sh])
         else rangeEmissions P mm es ch)"

text \<open>
  What a run of the goroutine of \<^verbatim>\<open>Shows\<close> leaves behind, for a consumer that reads
  the channel until it is closed: the shows sent, in order; whether the channel was closed;
  the lines written to the log; the state of the getter. \<^verbatim>\<open>Shows\<close> returns the channel
  and nothing else, so there is no error component.
\<close>

datatype logEntry = CantCallCatalogAPI error | CantDecodeCatalog error

record 'g producer =
  sent :: "Show list"
  closed :: bool
  logged :: "logEntry list"
  getterState :: 'g

definition Shows ::
  "('g, 'r) FranceTV \<Rightarrow> 'r json \<Rightarrow> ('m, 'x) providers_scheme \<Rightarrow> 'm list \<Rightarrow> 'g \<Rightarrow> 'g producer" where
  "Shows ftv js P mm g =
     (case getter ftv g (WSListURL 3000) of
        (Inl err, g') \<Rightarrow>
          \<lparr> sent = [], closed = True, logged = [CantCallCatalogAPI err], getterState = g' \<rparr>
      | (Inr r, g') \<Rightarrow>
          (case Decode_pluzzList js r of
             (err, list) \<Rightarrow>
               \<lparr> sent = rangeEmissions P mm (Emissions (Reponse list)) [],
                 closed = True,
                 logged = (case err of None \<Rightarrow> [] | Some e \<Rightarrow> [CantDecodeCatalog e]),
                 getterState = g' \<rparr>))"

subsection \<open>Detail resolver\<close>

text \<open>
  The loop over \<^verbatim>\<open>i.Videos\<close>: the first rendition with the format
  \<^verbatim>\<open>hls_v5_os\<close> gives its URL to the show and ends the loop.
\<close>

fun rangeVideos :: "video list \<Rightarrow> Show \<Rightarrow> Show" where
  "rangeVideos [] s = s"
| "rangeVideos (v # vs) s =
     (if Format v = ''hls_v5_os'' then s\<lparr>StreamURL := URL v\<rparr> else rangeVideos vs s)"

text \<open>
  \<^verbatim>\<open>GetShowInfo\<close> returns the error (\<open>None\<close> for \<^verbatim>\<open>nil\<close>), the show as the call
  leaves it, and the state of the getter.
\<close>

definition GetShowInfo ::
  "('g, 'r) FranceTV \<Rightarrow> 'r json \<Rightarrow> 'g \<Rightarrow> Show \<Rightarrow> error option \<times> Show \<times> 'g" where
  "GetShowInfo ftv js g s =
     (if Detailed s then (None, s, g)
      else
        case getter ftv g (WSInfoOeuvre @ ID s) of
          (Inl err, g') \<Rightarrow>
            (Some (Errorf ''Can't get show's detailed information: '' err), s, g')
        | (Inr r, g') \<Rightarrow>
            (case Decode_infoOeuvre js r of
               (Some err, i) \<Rightarrow>
                 (Some (Errorf ''Can't decode show's detailed information: '' err), s, g')
             | (None, i) \<Rightarrow>
                 (let s1 = s\<lparr>ThumbnailURL := ImageSecure i\<rparr>;
                      s2 = rangeVideos (Videos i) s1
                  in if StreamURL s2 = []
                     then (Some (Error ''Can't find hls_v5_os stream for the show''), s2, g')
                     else (None, s2\<lparr>Detailed := True\<rparr>, g'))))"

subsection \<open>Path builder\<close>

text \<open>
  \<^verbatim>\<open>GetShowFileName\<close>: \<^verbatim>\<open>ShowName/Season NN/ShowName - sNNeMM - Episode title\<close>.
\<close>

definition GetShowFileName :: "('m, 'x) providers_scheme \<Rightarrow> Show \<Rightarrow> string" where
  "GetShowFileName P s =
     (let showPath = PathNameCleaner P (Show s);
          seasonPath =
            (if Season s = [] then ''Season '' @ Format_2006 (AirDate s)
             else ''Season '' @ Format2Digits P (Season s));
          episodePath =
            (if Episode s = [] then FileNameCleaner P (Show s) @ '' - '' @ Format_2006_01_02 (AirDate s)
             else FileNameCleaner P (Show s) @ '' - s'' @ Format2Digits P (Season s)
                    @ ''e'' @ Format2Digits P (Episode s));
          episodePath' =
            (if Episode s = [] \<and> (Title s = [] \<or> Title s = Show s)
             then episodePath @ '' - '' @ ID s @ ''.mp4''
             else if Title s \<noteq> [] \<and> Title s \<noteq> Show s
                  then episodePath @ '' - '' @ FileNameCleaner P (Title s) @ ''.mp4''
                  else episodePath @ ''.mp4'')
      in filepath_Join [showPath, seasonPath, episodePath'])"

text \<open>\<^verbatim>\<open>GetShowFileNameMatcher\<close> returns what \<^verbatim>\<open>GetShowFileName\<close> returns.\<close>

definition GetShowFileNameMatcher :: "('m, 'x) providers_scheme \<Rightarrow> Show \<Rightarrow> string" where
  "GetShowFileNameMatcher P s = GetShowFileName P s"

subsection \<open>Test doubles and sample data\<close>

text \<open>
  A getter that answers every request with the same response and counts the requests,
  and decoders that return a fixed outcome: the substitutes a test injects with
  \<^verbatim>\<open>WithGetter\<close>.
\<close>

definition cannedGetter :: "error + unit \<Rightarrow> nat \<Rightarrow> string \<Rightarrow> (error + unit) \<times> nat" where
  "cannedGetter response n uri = (response, Suc n)"

definition cannedFranceTV :: "error + unit \<Rightarrow> (nat, unit) FranceTV" where
  "cannedFranceTV response = \<lparr> getter = cannedGetter response \<rparr>"

definition cannedJSON ::
  "error option \<times> pluzzList \<Rightarrow> error option \<times> infoOeuvre \<Rightarrow> unit json" where
  "cannedJSON list info =
     \<lparr> Decode_pluzzList = (\<lambda>r. list), Decode_infoOeuvre = (\<lambda>r. info) \<rparr>"

text \<open>
  Modelled from the spec: the digit-padding helper \<^verbatim>\<open>Format2Digits\<close> of package
  \<^verbatim>\<open>providers\<close>, whose code is in another file: the number zero-padded to 2 digits.
\<close>

definition zeroPad2 :: "string \<Rightarrow> string" where
  "zeroPad2 s = replicate (2 - length s) (CHR ''0'') @ s"

text \<open>
  Sample helpers: a show matches when its series name is one of the requested names,
  and the sanitizers leave their argument as it is.
\<close>

definition sampleProviders :: "string providers" where
  "sampleProviders =
     \<lparr> IsShowMatch = (\<lambda>mm s. Show s \<in> set mm),
       PathNameCleaner = (\<lambda>s. s),
       FileNameCleaner = (\<lambda>s. s),
       Format2Digits = zeroPad2 \<rparr>"

definition may1st2023 :: Time where
  "may1st2023 = \<lparr> Year = 2023, Month = 5, Day = 1 \<rparr>"

definition journalEntry :: emission where
  "journalEntry =
     \<lparr> IDDiffusion = ''abc123'', Titre = '' Le Journal '', Soustitre = [], Saison = [],
       Episode = [], Accroche = ''Les titres du jour'', TsDiffusionUtc = may1st2023,
       ChaineID = ''france2'', DureeReelle = 1800, Rubrique = ''info'',
       OasSitepage = ''http://pluzz/journal'', ImageLarge = ''http://img/journal.jpg'' \<rparr>"

text \<open>An entry of a catalog that decodes without error and gives no identifier.\<close>

definition dramaEntry :: emission where
  "dramaEntry =
     \<lparr> IDDiffusion = [], Titre = ''Drama'', Soustitre = ''Pilot'', Saison = ''2'',
       Episode = ''5'', Accroche = [], TsDiffusionUtc = may1st2023,
       ChaineID = ''france3'', DureeReelle = 3000, Rubrique = ''serie'',
       OasSitepage = ''http://pluzz/drama'', ImageLarge = ''http://img/drama.jpg'' \<rparr>"

definition meteoEntry :: emission where
  "meteoEntry =
     \<lparr> IDDiffusion = ''m777'', Titre = ''Meteo'', Soustitre = [], Saison = [],
       Episode = [], Accroche = [], TsDiffusionUtc = may1st2023,
       ChaineID = ''france2'', DureeReelle = 120, Rubrique = ''info'',
       OasSitepage = ''http://pluzz/meteo'', ImageLarge = ''http://img/meteo.jpg'' \<rparr>"

definition sampleCatalog :: pluzzList where
  "sampleCatalog = \<lparr> Reponse = \<lparr> Emissions = [journalEntry, dramaEntry, meteoEntry] \<rparr> \<rparr>"


definition emptyInfo :: infoOeuvre where
  "emptyInfo = \<lparr> ImageSecure = [], Videos = [] \<rparr>"

text \<open>
  A catalog whose decoding ends with an error after the entry was stored: a body that is
  well-formed JSON and holds, after the entry, a value of the wrong JSON type for its field.
\<close>

definition typeError :: error where
  "typeError = Error ''json: cannot unmarshal number into Go struct field of type string''"

definition partialCatalog :: "error option \<times> pluzzList" where
  "partialCatalog = (Some typeError, \<lparr> Reponse = \<lparr> Emissions = [journalEntry] \<rparr> \<rparr>)"

definition hls :: video where
  "hls = \<lparr> Format = ''hls_v5_os'', URL = ''https://cdn/master.m3u8'' \<rparr>"

definition hlsNoURL :: video where
  "hlsNoURL = \<lparr> Format = ''hls_v5_os'', URL = [] \<rparr>"

definition mp4 :: video where
  "mp4 = \<lparr> Format = ''mp4-dp'', URL = ''https://cdn/video.mp4'' \<rparr>"

definition infoWithHLS :: infoOeuvre where
  "infoWithHLS = \<lparr> ImageSecure = ''https://img/secure.jpg'', Videos = [mp4, hls] \<rparr>"

definition infoWithoutHLS :: infoOeuvre where
  "infoWithoutHLS = \<lparr> ImageSecure = ''https://img/secure.jpg'', Videos = [mp4] \<rparr>"

definition infoHLSTwice :: infoOeuvre where
  "infoHLSTwice = \<lparr> ImageSecure = ''https://img/secure.jpg'', Videos = [hlsNoURL, hls] \<rparr>"

definition journalShow :: Show where
  "journalShow = mapEmission journalEntry"

section \<open>Properties\<close>

subsection \<open>The two loops\<close>

text \<open>
  The loop of \<^verbatim>\<open>Shows\<close> appends to the channel the mapped entries that match, in the
  order of the entries.
\<close>

lemma rangeEmissions_filter:
  "rangeEmissions P mm es ch = ch @ filter (IsShowMatch P mm) (map mapEmission es)"
  by (induction es arbitrary: ch) (simp_all add: Let_def)

text \<open>The loop of \<^verbatim>\<open>GetShowInfo\<close> looks for the first rendition with the target format.\<close>

lemma rangeVideos_find:
  "rangeVideos vs s =
     (case find (\<lambda>v. Format v = ''hls_v5_os'') vs of
        None \<Rightarrow> s
      | Some v \<Rightarrow> s\<lparr>StreamURL := URL v\<rparr>)"
  by (induction vs) simp_all

lemma sent_Shows:
  "sent (Shows ftv js P mm g) =
     (case getter ftv g (WSListURL 3000) of
        (Inl err, g') \<Rightarrow> []
      | (Inr r, g') \<Rightarrow>
          filter (IsShowMatch P mm)
            (map mapEmission (Emissions (Reponse (snd (Decode_pluzzList js r))))))"
  by (simp add: Shows_def rangeEmissions_filter split: prod.splits sum.splits)

text \<open>Every run ends with the channel closed: the \<^verbatim>\<open>close\<close> is deferred.\<close>

lemma closed_Shows:
  "closed (Shows ftv js P mm g)"
  by (simp add: Shows_def split: prod.splits sum.splits)

subsection \<open>Evaluation of the sample data\<close>

lemma journalShow_eq:
  "journalShow =
     \<lparr> ID = ''abc123'', Show = ''Le Journal'', Title = [], Season = [], Episode = [],
       Pitch = ''Les titres du jour'', AirDate = may1st2023, Channel = ''france2'',
       Detailed = False, DRM = False, Duration = 1800, Category = ''info'',
       Provider = ''francetv'', ShowURL = ''http://pluzz/journal'', StreamURL = [],
       ThumbnailURL = ''http://img/journal.jpg'' \<rparr>"
  by code_simp

lemma Format_may1st2023:
  "Format_2006 \<lparr>Year = 2023, Month = 5, Day = 1\<rparr> = ''2023''"
  "Format_2006_01_02 \<lparr>Year = 2023, Month = 5, Day = 1\<rparr> = ''2023-05-01''"
  by (simp_all add: Format_2006_def Format_2006_01_02_def appendInt_def itoa.simps digit_def)

lemma filepath_Join_examples:
  "filepath_Join [''Le Journal'', ''Season 2023'', ''Le Journal - 2023-05-01 - abc123.mp4'']
     = ''Le Journal/Season 2023/Le Journal - 2023-05-01 - abc123.mp4''"
  "filepath_Join [''Drama'', ''Season 02'', ''Drama - s02e05 - Pilot.mp4'']
     = ''Drama/Season 02/Drama - s02e05 - Pilot.mp4''"
  "filepath_Join [''Drama'', ''Season 02'', ''Drama - s02e05.mp4'']
     = ''Drama/Season 02/Drama - s02e05.mp4''"
  by (simp_all add: filepath_Join_def Clean_def)

lemma cannedGetter_info:
  "getter (cannedFranceTV (Inr ())) 0 (WSInfoOeuvre @ ID sh) = (Inr (), 1)"
  by (simp add: cannedFranceTV_def cannedGetter_def)

lemma cannedGetter_list:
  "getter (cannedFranceTV (Inr ())) 0 (WSListURL 3000) = (Inr (), 1)"
  by (simp add: cannedFranceTV_def cannedGetter_def)

subsection \<open>Detail resolver: failing calls\<close>




subsection \<open>Catalog stream producer\<close>

text \<open>
  C2. A failure of the getter ends the run with nothing sent (\<open>sent_Shows\<close>), but a
  failure of the decoder does not: the branch that logs it has no \<^verbatim>\<open>return\<close>, and the
  loop runs on what the decoder stored before it reported the error. Here the decoder
  reports a type error after storing one entry; the entry matches and is sent.
\<close>

theorem Shows_decode_failure_sends:
  "Shows (cannedFranceTV (Inr ())) (cannedJSON partialCatalog (None, emptyInfo))
     sampleProviders [''Le Journal''] 0
     = \<lparr> sent = [journalShow], closed = True,
         logged = [CantDecodeCatalog typeError], getterState = 1 \<rparr>"
  by code_simp

text \<open>
  C3. Every show sent on the channel by \<^verbatim>\<open>Shows\<close> has \<^verbatim>\<open>Detailed\<close> false and an
  empty \<^verbatim>\<open>StreamURL\<close>, whatever the getter, the decoder, the catalog and the match
  criteria are.
\<close>

theorem Shows_sends_undetailed:
  "s \<in> set (sent (Shows ftv js P mm g)) \<Longrightarrow> \<not> Detailed s \<and> StreamURL s = []"
  by (auto simp: sent_Shows mapEmission_def split: prod.splits sum.splits)

theorem Shows_sends_undetailed_witness:
  "journalShow \<in> set (sent (Shows (cannedFranceTV (Inr ()))
      (cannedJSON (None, sampleCatalog) (None, emptyInfo))
      sampleProviders [''Le Journal'', ''Meteo''] 0))
   \<and> \<not> Detailed journalShow \<and> StreamURL journalShow = []"
proof -
  have h: "journalShow \<in> set (sent (Shows (cannedFranceTV (Inr ()))
      (cannedJSON (None, sampleCatalog) (None, emptyInfo))
      sampleProviders [''Le Journal'', ''Meteo''] 0))"
    by code_simp
  from Shows_sends_undetailed [OF h] h show ?thesis
    by simp
qed




text \<open>
  C9. When the getter returns a reader, the shows sent by \<^verbatim>\<open>Shows\<close> are the mapped
  entries of the decoded catalog that satisfy \<^verbatim>\<open>IsShowMatch\<close>, each one once and in the
  order of the entries: the order-preserving filter of the mapped entry sequence.
\<close>

theorem Shows_order_preserving_filter:
  assumes "getter ftv g (WSListURL 3000) = (Inr r, g')"
    and "Decode_pluzzList js r = (err, list)"
  shows "sent (Shows ftv js P mm g) =
           filter (IsShowMatch P mm) (map mapEmission (Emissions (Reponse list)))"
  using assms by (simp add: sent_Shows)

theorem Shows_order_preserving_filter_witness:
  "getter (cannedFranceTV (Inr ())) 0 (WSListURL 3000) = (Inr (), 1)
   \<and> Decode_pluzzList (cannedJSON (None, sampleCatalog) (None, emptyInfo)) ()
       = (None, sampleCatalog)
   \<and> sent (Shows (cannedFranceTV (Inr ()))
        (cannedJSON (None, sampleCatalog) (None, emptyInfo))
        sampleProviders [''Meteo'', ''Le Journal''] 0)
       = [mapEmission journalEntry, mapEmission meteoEntry]"
proof -
  have d: "Decode_pluzzList (cannedJSON (None, sampleCatalog) (None, emptyInfo)) ()
             = (None, sampleCatalog)"
    by (simp add: cannedJSON_def)
  have f: "filter (IsShowMatch sampleProviders [''Meteo'', ''Le Journal''])
             (map mapEmission (Emissions (Reponse sampleCatalog)))
             = [mapEmission journalEntry, mapEmission meteoEntry]"
    by code_simp
  from Shows_order_preserving_filter
         [OF cannedGetter_list d, of sampleProviders "[''Meteo'', ''Le Journal'']"]
       cannedGetter_list d f
  show ?thesis
    by simp
qed

subsection \<open>Detail resolver: successful calls\<close>

text \<open>
  C5. On a show whose \<^verbatim>\<open>Detailed\<close> is true, \<^verbatim>\<open>GetShowInfo\<close> returns \<^verbatim>\<open>nil\<close> and
  leaves every field of the show as it was. The getter is not called: whatever the getter
  is, its state after the call is its state before, in particular the count of a getter
  that counts its requests.
\<close>

theorem GetShowInfo_idempotent:
  "Detailed s \<Longrightarrow> GetShowInfo ftv js g s = (None, s, g)"
  by (simp add: GetShowInfo_def)

theorem GetShowInfo_idempotent_witness:
  "Detailed (journalShow\<lparr>Detailed := True\<rparr>)
   \<and> GetShowInfo (cannedFranceTV (Inr ()))
        (cannedJSON (None, sampleCatalog) (None, infoWithHLS)) 0
        (journalShow\<lparr>Detailed := True\<rparr>)
       = (None, journalShow\<lparr>Detailed := True\<rparr>, 0)"
proof -
  have h: "Detailed (journalShow\<lparr>Detailed := True\<rparr>)"
    by simp
  from GetShowInfo_idempotent [OF h] h show ?thesis
    by simp
qed

text \<open>
  C6 as stated does not hold. The document below offers the target format twice, first
  with an empty URL and then with a URL. It contains a rendition in the target format with
  a non-empty URL, yet the scan stops at the first rendition in the target format, the
  stream URL stays empty and \<^verbatim>\<open>GetShowInfo\<close> returns an error.
\<close>

theorem GetShowInfo_stops_at_first_format_match:
  "\<not> Detailed journalShow
   \<and> hls \<in> set (Videos infoHLSTwice) \<and> Format hls = ''hls_v5_os'' \<and> URL hls \<noteq> []
   \<and> GetShowInfo (cannedFranceTV (Inr ()))
        (cannedJSON (None, sampleCatalog) (None, infoHLSTwice)) 0 journalShow
       = (Some (Error ''Can't find hls_v5_os stream for the show''),
          journalShow\<lparr>ThumbnailURL := ''https://img/secure.jpg''\<rparr>, 1)"
  by code_simp

text \<open>
  C6, amended. For a show \<open>s\<close> whose \<^verbatim>\<open>Detailed\<close> is false, when the getter returns a
  reader, the document decodes without error, and the first rendition of the document whose
  format is \<^verbatim>\<open>hls_v5_os\<close> has a non-empty URL, \<^verbatim>\<open>GetShowInfo(s)\<close> returns
  \<^verbatim>\<open>nil\<close>; afterwards \<^verbatim>\<open>StreamURL\<close> is the URL of that rendition, \<^verbatim>\<open>ThumbnailURL\<close>
  is the secure thumbnail URL of the document, \<^verbatim>\<open>Detailed\<close> is true, and the other
  fields are unchanged.
\<close>

theorem GetShowInfo_success:
  assumes "\<not> Detailed s"
    and "getter ftv g (WSInfoOeuvre @ ID s) = (Inr r, g')"
    and "Decode_infoOeuvre js r = (None, i)"
    and "find (\<lambda>v. Format v = ''hls_v5_os'') (Videos i) = Some v"
    and "URL v \<noteq> []"
  shows "GetShowInfo ftv js g s =
           (None, s\<lparr>ThumbnailURL := ImageSecure i, StreamURL := URL v, Detailed := True\<rparr>, g')"
  using assms
  by (simp add: GetShowInfo_def rangeVideos_find Let_def)

theorem GetShowInfo_success_witness:
  "\<not> Detailed journalShow
   \<and> getter (cannedFranceTV (Inr ())) 0 (WSInfoOeuvre @ ID journalShow) = (Inr (), 1)
   \<and> Decode_infoOeuvre (cannedJSON (None, sampleCatalog) (None, infoWithHLS)) ()
       = (None, infoWithHLS)
   \<and> find (\<lambda>v. Format v = ''hls_v5_os'') (Videos infoWithHLS) = Some hls
   \<and> URL hls \<noteq> []
   \<and> GetShowInfo (cannedFranceTV (Inr ()))
        (cannedJSON (None, sampleCatalog) (None, infoWithHLS)) 0 journalShow
       = (None, journalShow\<lparr>ThumbnailURL := ImageSecure infoWithHLS,
                 StreamURL := URL hls, Detailed := True\<rparr>, 1)"
proof -
  have a: "\<not> Detailed journalShow"
    by (simp add: journalShow_eq)
  have d: "Decode_infoOeuvre (cannedJSON (None, sampleCatalog) (None, infoWithHLS)) ()
             = (None, infoWithHLS)"
    by (simp add: cannedJSON_def)
  have f: "find (\<lambda>v. Format v = ''hls_v5_os'') (Videos infoWithHLS) = Some hls"
    by (simp add: infoWithHLS_def mp4_def hls_def)
  have u: "URL hls \<noteq> []"
    by (simp add: hls_def)
  from GetShowInfo_success [OF a cannedGetter_info d f u] a cannedGetter_info [of journalShow] d f u
  show ?thesis
    by simp
qed

text \<open>
  C10. For a show whose \<^verbatim>\<open>Detailed\<close> is false and whose \<^verbatim>\<open>StreamURL\<close> is already
  non-empty, when the getter returns a reader and the document decodes without error,
  \<^verbatim>\<open>GetShowInfo\<close> returns \<^verbatim>\<open>nil\<close>, sets \<^verbatim>\<open>Detailed\<close> and overwrites
  \<^verbatim>\<open>ThumbnailURL\<close> with the secure thumbnail URL of the document even though no rendition
  of the document has the format \<^verbatim>\<open>hls_v5_os\<close>: the test after the scan reads
  \<^verbatim>\<open>StreamURL\<close>, which still holds its old value.
\<close>

theorem GetShowInfo_stale_StreamURL:
  assumes "\<not> Detailed s"
    and "StreamURL s \<noteq> []"
    and "getter ftv g (WSInfoOeuvre @ ID s) = (Inr r, g')"
    and "Decode_infoOeuvre js r = (None, i)"
    and "\<forall>v \<in> set (Videos i). Format v \<noteq> ''hls_v5_os''"
  shows "GetShowInfo ftv js g s =
           (None, s\<lparr>ThumbnailURL := ImageSecure i, Detailed := True\<rparr>, g')"
proof -
  from assms(5) have "find (\<lambda>v. Format v = ''hls_v5_os'') (Videos i) = None"
    by (simp add: find_None_iff)
  with assms(1-4) show ?thesis
    by (simp add: GetShowInfo_def rangeVideos_find Let_def)
qed

theorem GetShowInfo_stale_StreamURL_witness:
  "\<not> Detailed (journalShow\<lparr>StreamURL := ''http://old/stream.m3u8''\<rparr>)
   \<and> StreamURL (journalShow\<lparr>StreamURL := ''http://old/stream.m3u8''\<rparr>) \<noteq> []
   \<and> Videos infoWithoutHLS = [mp4] \<and> Format mp4 \<noteq> ''hls_v5_os''
   \<and> GetShowInfo (cannedFranceTV (Inr ()))
        (cannedJSON (None, sampleCatalog) (None, infoWithoutHLS)) 0
        (journalShow\<lparr>StreamURL := ''http://old/stream.m3u8''\<rparr>)
       = (None, journalShow\<lparr>StreamURL := ''http://old/stream.m3u8'',
                 ThumbnailURL := ImageSecure infoWithoutHLS, Detailed := True\<rparr>, 1)"
proof -
  have a: "\<not> Detailed (journalShow\<lparr>StreamURL := ''http://old/stream.m3u8''\<rparr>)"
    by (simp add: journalShow_eq)
  have b: "StreamURL (journalShow\<lparr>StreamURL := ''http://old/stream.m3u8''\<rparr>) \<noteq> []"
    by simp
  have d: "Decode_infoOeuvre (cannedJSON (None, sampleCatalog) (None, infoWithoutHLS)) ()
             = (None, infoWithoutHLS)"
    by (simp add: cannedJSON_def)
  have f: "\<forall>v \<in> set (Videos infoWithoutHLS). Format v \<noteq> ''hls_v5_os''"
    by (simp add: infoWithoutHLS_def mp4_def)
  have v: "Videos infoWithoutHLS = [mp4] \<and> Format mp4 \<noteq> ''hls_v5_os''"
    by (simp add: infoWithoutHLS_def mp4_def)
  from GetShowInfo_stale_StreamURL [OF a b cannedGetter_info d f] a b v show ?thesis
    by simp
qed

subsection \<open>Path builder\<close>

text \<open>
  C7. For every show, \<^verbatim>\<open>GetShowFileNameMatcher\<close> returns the string that
  \<^verbatim>\<open>GetShowFileName\<close> returns.
\<close>

theorem GetShowFileNameMatcher_eq:
  "GetShowFileNameMatcher P s = GetShowFileName P s"
  by (simp add: GetShowFileNameMatcher_def)

text \<open>
  C8. The three example paths, for sanitizers that return the names \<^verbatim>\<open>Le Journal\<close>,
  \<^verbatim>\<open>Drama\<close> and \<^verbatim>\<open>Pilot\<close> as they are and a digit helper that pads \<^verbatim>\<open>2\<close> and
  \<^verbatim>\<open>5\<close> to two digits. The fields that an example does not give are arbitrary.
\<close>

theorem GetShowFileName_examples:
  assumes "PathNameCleaner P ''Le Journal'' = ''Le Journal''"
    and "FileNameCleaner P ''Le Journal'' = ''Le Journal''"
    and "PathNameCleaner P ''Drama'' = ''Drama''"
    and "FileNameCleaner P ''Drama'' = ''Drama''"
    and "FileNameCleaner P ''Pilot'' = ''Pilot''"
    and "Format2Digits P ''2'' = ''02''"
    and "Format2Digits P ''5'' = ''05''"
  shows "GetShowFileName P
           (s\<lparr>Show := ''Le Journal'', Season := [], Episode := [], Title := [],
              AirDate := \<lparr>Year = 2023, Month = 5, Day = 1\<rparr>, ID := ''abc123''\<rparr>)
           = ''Le Journal/Season 2023/Le Journal - 2023-05-01 - abc123.mp4''
       \<and> GetShowFileName P
           (s\<lparr>Show := ''Drama'', Season := ''2'', Episode := ''5'', Title := ''Pilot'',
              AirDate := \<lparr>Year = 2023, Month = 5, Day = 1\<rparr>\<rparr>)
           = ''Drama/Season 02/Drama - s02e05 - Pilot.mp4''
       \<and> GetShowFileName P
           (s\<lparr>Show := ''Drama'', Season := ''2'', Episode := ''5'', Title := ''Drama''\<rparr>)
           = ''Drama/Season 02/Drama - s02e05.mp4''"
proof -
  have 1: "GetShowFileName P
           (s\<lparr>Show := ''Le Journal'', Season := [], Episode := [], Title := [],
              AirDate := \<lparr>Year = 2023, Month = 5, Day = 1\<rparr>, ID := ''abc123''\<rparr>)
           = ''Le Journal/Season 2023/Le Journal - 2023-05-01 - abc123.mp4''"
    by (simp add: GetShowFileName_def assms Format_may1st2023 filepath_Join_examples)
  have 2: "GetShowFileName P
           (s\<lparr>Show := ''Drama'', Season := ''2'', Episode := ''5'', Title := ''Pilot'',
              AirDate := \<lparr>Year = 2023, Month = 5, Day = 1\<rparr>\<rparr>)
           = ''Drama/Season 02/Drama - s02e05 - Pilot.mp4''"
    by (simp add: GetShowFileName_def assms filepath_Join_examples)
  have 3: "GetShowFileName P
           (s\<lparr>Show := ''Drama'', Season := ''2'', Episode := ''5'', Title := ''Drama''\<rparr>)
           = ''Drama/Season 02/Drama - s02e05.mp4''"
    by (simp add: GetShowFileName_def assms filepath_Join_examples)
  from 1 2 3 show ?thesis by simp
qed

theorem GetShowFileName_examples_witness:
  "GetShowFileName sampleProviders
     (journalShow\<lparr>Show := ''Le Journal'', Season := [], Episode := [], Title := [],
        AirDate := \<lparr>Year = 2023, Month = 5, Day = 1\<rparr>, ID := ''abc123''\<rparr>)
     = ''Le Journal/Season 2023/Le Journal - 2023-05-01 - abc123.mp4''
   \<and> GetShowFileName sampleProviders
       (journalShow\<lparr>Show := ''Drama'', Season := ''2'', Episode := ''5'', Title := ''Pilot'',
          AirDate := \<lparr>Year = 2023, Month = 5, Day = 1\<rparr>\<rparr>)
       = ''Drama/Season 02/Drama - s02e05 - Pilot.mp4''
   \<and> GetShowFileName sampleProviders
       (journalShow\<lparr>Show := ''Drama'', Season := ''2'', Episode := ''5'', Title := ''Drama''\<rparr>)
       = ''Drama/Season 02/Drama - s02e05.mp4''"
  using GetShowFileName_examples [of sampleProviders journalShow]
  by (simp add: sampleProviders_def zeroPad2_def)

end
